theory Spec2Isabelle
  imports Complex_Main "HOL-Library.Char_ord" "HOL-Library.List_Lexorder"
begin

section \<open>Strings of the source language\<close>

text \<open>
  A source string is a sequence of code units; the model takes the code units below 256,
  so a string is a \<^typ>\<open>string\<close>. The relational operators of the source on strings
  compare code units lexicographically, a proper prefix being smaller: this is the order
  on \<^typ>\<open>char list\<close> of \<open>List_Lexorder\<close> over \<open>Char_ord\<close>.
  Numbers of the source (scores, similarities) are modelled as \<^typ>\<open>real\<close>.
\<close>

text \<open>A string is truthy when it is not empty; an optional string when it is present and not empty.\<close>

definition truthy :: "string option \<Rightarrow> bool" where
  "truthy v = (case v of None \<Rightarrow> False | Some s \<Rightarrow> s \<noteq> [])"

text \<open>\<open>s.replace(pat, rep)\<close> with a string pattern: the first occurrence only.\<close>

fun replace_first :: "string \<Rightarrow> string \<Rightarrow> string \<Rightarrow> string" where
  "replace_first pat rep [] = (if pat = [] then rep else [])"
| "replace_first pat rep (c # cs) =
     (if take (length pat) (c # cs) = pat then rep @ drop (length pat) (c # cs)
      else c # replace_first pat rep cs)"

text \<open>\<open>toLowerCase\<close> on code units below 256: A-Z and the accented capitals
  0xC0-0xDE (not the multiplication sign 0xD7) move up by 32.\<close>

definition lower_char :: "char \<Rightarrow> char" where
  "lower_char c =
     (let n = (of_char c :: nat) in
      if (65 \<le> n \<and> n \<le> 90) \<or> (192 \<le> n \<and> n \<le> 222 \<and> n \<noteq> 215)
      then char_of (n + 32) else c)"

definition toLowerCase :: "string \<Rightarrow> string" where
  "toLowerCase s = map lower_char s"

text \<open>The class \<open>\s\<close> of the regular expressions, on code units below 256.\<close>

definition is_space :: "char \<Rightarrow> bool" where
  "is_space c = ((of_char c :: nat) \<in> {9, 10, 11, 12, 13, 32, 160})"

text \<open>\<open>s.split(/\s+/).filter(Boolean)\<close>: the maximal runs of non-space characters.\<close>

fun split_ws_acc :: "string \<Rightarrow> string \<Rightarrow> string list" where
  "split_ws_acc cur [] = (if cur = [] then [] else [cur])"
| "split_ws_acc cur (c # cs) =
     (if is_space c then (if cur = [] then split_ws_acc [] cs else cur # split_ws_acc [] cs)
      else split_ws_acc (cur @ [c]) cs)"

definition split_ws :: "string \<Rightarrow> string list" where
  "split_ws s = split_ws_acc [] s"

fun join :: "string \<Rightarrow> string list \<Rightarrow> string" where
  "join sep [] = []"
| "join sep [x] = x"
| "join sep (x # y # ys) = x @ sep @ join sep (y # ys)"

section \<open>Fuzzy name matching (matching/fuzzy.ts)\<close>

definition STRIP_TERMS :: "string list" where
  "STRIP_TERMS =
     [''llc'', ''inc'', ''corp'', ''corporation'', ''associates'', ''assoc'',
      ''group'', ''medical'', ''med'', ''center'', ''centre'', ''clinic'',
      ''pa'', ''pc'', ''md'', ''do'', ''dds'', ''dpm'', ''healthcare'',
      ''health'', ''services'', ''practice'', ''partners'', ''pllc'', ''ltd'']"

text \<open>The character class of \<open>normalizeName\<close>: period, apostrophe, comma, hyphen, slash,
  backslash and the two parentheses.\<close>

definition is_punct :: "char \<Rightarrow> bool" where
  "is_punct c = ((of_char c :: nat) \<in> {46, 39, 44, 45, 47, 92, 40, 41})"

definition normalizeName :: "string \<Rightarrow> string" where
  "normalizeName name =
     (let n = map (\<lambda>c. if is_punct c then CHR '' '' else c) (toLowerCase name);
          tokens = split_ws n;
          filtered = filter (\<lambda>t. t \<notin> set STRIP_TERMS) tokens
      in join '' '' (if length filtered > 0 then filtered else tokens))"

text \<open>
  \<open>levenshteinDistance\<close> keeps two rows, \<open>prev\<close> and \<open>curr\<close>, and swaps them after
  each row. \<open>inner_step\<close> is the body of the inner loop at column \<open>j\<close>, \<open>lev_row\<close>
  the body of the outer loop at row \<open>i\<close> (\<open>cur\<close> stands for the source's \<open>curr\<close>).
  The fresh \<open>curr\<close> array is modelled filled with 0: every slot is written before it is read.
\<close>

definition inner_step :: "string \<Rightarrow> string \<Rightarrow> nat \<Rightarrow> nat list \<Rightarrow> nat list \<Rightarrow> nat \<Rightarrow> nat list" where
  "inner_step a b i prev cur j =
     cur[j := (if a ! (i - 1) = b ! (j - 1) then prev ! (j - 1)
               else 1 + min (prev ! (j - 1)) (min (prev ! j) (cur ! (j - 1))))]"

definition lev_row :: "string \<Rightarrow> string \<Rightarrow> nat list \<Rightarrow> nat list \<Rightarrow> nat \<Rightarrow> nat list" where
  "lev_row a b prev cur i = foldl (inner_step a b i prev) (cur[0 := i]) [1..<Suc (length b)]"

definition lev_rows :: "string \<Rightarrow> string \<Rightarrow> nat \<Rightarrow> nat list \<times> nat list" where
  "lev_rows a b k =
     foldl (\<lambda>(prev, cur) i. (lev_row a b prev cur i, prev))
       ([0..<Suc (length b)], replicate (Suc (length b)) 0) [1..<Suc k]"

definition levenshteinDistance :: "string \<Rightarrow> string \<Rightarrow> nat" where
  "levenshteinDistance a b =
     (let m = length a; n = length b in
      if m = 0 then n
      else if n = 0 then m
      else fst (lev_rows a b m) ! n)"

definition tokenJaccard :: "string \<Rightarrow> string \<Rightarrow> real" where
  "tokenJaccard a b =
     (let tokensA = split_ws a; tokensB = split_ws b;
          setA = remdups tokensA; setB = remdups tokensB
      in if length setA = 0 \<and> length setB = 0 then 0
         else let intersection = filter (\<lambda>x. x \<in> set setB) setA;
                  union = remdups (setA @ setB)
              in if length union = 0 then 0
                 else real (length intersection) / real (length union))"

definition fuzzyNameMatch :: "string \<Rightarrow> string \<Rightarrow> real" where
  "fuzzyNameMatch a b =
     (let na = normalizeName a; nb = normalizeName b in
      if na = nb then 1
      else let jaccard = tokenJaccard na nb;
               maxLen = max (length na) (length nb);
               levenSim = (if maxLen = 0 then 1
                           else 1 - real (levenshteinDistance na nb) / real maxLen)
           in max jaccard levenSim)"

section \<open>Resources (fhir/types.ts)\<close>

text \<open>
  Interfaces are records, optional fields are options, string unions are datatypes.
  Field names carry a prefix where two interfaces share a name. The resources keep the
  fields that the functions below read or write.
\<close>

record Identifier =
  id_system :: string
  id_value :: string

record Coding =
  coding_system :: "string option"
  coding_code :: string
  coding_display :: "string option"

record CodeableConcept =
  cc_coding :: "Coding list option"
  cc_text :: "string option"

record Period =
  period_start :: "string option"
  period_end :: "string option"

record Reference =
  reference :: string
  display :: "string option"
  ref_identifier :: "Identifier option"

datatype Extension =
  Extension (url: string) (valueCode: "string option") (valueString: "string option")
    (valueCoding: "Coding option") (extension: "Extension list option")

record Organization =
  org_id :: string
  org_identifier :: "Identifier list option"
  org_name :: string

record Practitioner =
  pract_id :: string
  pract_identifier :: "Identifier list option"

record PractitionerRole =
  role_id :: string
  role_practitioner :: Reference
  role_organization :: Reference
  role_specialty :: "CodeableConcept list option"

record ServiceRequest =
  sr_id :: string
  sr_subject :: Reference
  sr_requester :: "Reference option"
  sr_occurrencePeriod :: "Period option"
  sr_extension :: "Extension list option"

datatype TaskStatus =
  T_requested | T_received | T_accepted | T_in_progress | T_completed | T_failed | T_cancelled

record Restriction =
  restriction_period :: "Period option"

record TaskOutput =
  out_type :: CodeableConcept
  out_valueReference :: "Reference option"

record Task =
  task_id :: string
  task_status :: TaskStatus
  task_focus :: "Reference option"
  task_for :: "Reference option"
  task_lastModified :: "string option"
  task_restriction :: "Restriction option"
  task_businessStatus :: "CodeableConcept option"
  task_output :: "TaskOutput list option"

datatype EncounterStatus =
  E_planned | E_arrived | E_triaged | E_in_progress | E_onleave | E_finished | E_cancelled

record Meta =
  meta_profile :: "string list option"

record Participant =
  individual :: "Reference option"

record Encounter =
  enc_id :: string
  enc_meta :: "Meta option"
  enc_status :: EncounterStatus
  enc_class :: Coding
  enc_type :: "CodeableConcept list option"
  enc_subject :: Reference
  enc_participant :: "Participant list option"
  enc_period :: "Period option"
  enc_reasonCode :: "CodeableConcept list option"
  enc_serviceProvider :: "Reference option"

datatype SharingMode = Referrals_only | All_encounters

record SharingPreference =
  pref_patientId :: string
  pref_physicianRef :: string
  pref_mode :: SharingMode
  pref_grantedAt :: string
  pref_active :: bool

record RoutedEvent =
  ev_id :: string
  ev_encounterId :: string
  ev_patientId :: string
  ev_physicianRef :: string
  ev_taskId :: "string option"
  ev_matchScore :: "real option"
  ev_routedAt :: string
  ev_encounter :: Encounter

section \<open>Matching engine (matching/engine.ts)\<close>

definition W_orgNpi :: real where "W_orgNpi = 35 / 100"
definition W_orgName :: real where "W_orgName = 20 / 100"
definition W_practitionerNpi :: real where "W_practitionerNpi = 25 / 100"
definition W_specialty :: real where "W_specialty = 10 / 100"
definition W_dateInWindow :: real where "W_dateInWindow = 10 / 100"

definition MIN_SCORE_THRESHOLD :: real where "MIN_SCORE_THRESHOLD = 10 / 100"
definition HIGH_CONFIDENCE :: real where "HIGH_CONFIDENCE = 70 / 100"
definition MEDIUM_CONFIDENCE :: real where "MEDIUM_CONFIDENCE = 40 / 100"

datatype Confidence = High | Medium | Low

record Signals =
  sig_orgNpi :: bool
  sig_orgName :: real
  sig_practitionerNpi :: bool
  sig_specialty :: bool
  sig_dateInWindow :: bool

record MatchResult =
  serviceRequestId :: string
  taskId :: string
  score :: real
  confidence :: Confidence
  signals :: Signals

record OpenReferral =
  serviceRequest :: ServiceRequest
  task :: Task

record MatchContext =
  orgNpiLookup :: "(string \<Rightarrow> string option) option"
  practitionerNpiLookup :: "(string \<Rightarrow> string option) option"
  specialtyLookup :: "(string \<Rightarrow> string option) option"

record Targets =
  tgt_orgNpi :: "string option"
  tgt_orgName :: "string option"
  tgt_practitionerNpi :: "string option"
  tgt_specialtyCode :: "string option"

definition NPI_SYSTEM :: string where
  "NPI_SYSTEM = ''http://hl7.org/fhir/sid/us-npi''"

definition TARGET_EXT_URL :: string where
  "TARGET_EXT_URL = ''http://example.org/fhir/StructureDefinition/referral-target-identifiers''"

text \<open>\<open>exts.find(e => e.url === u)?.valueString\<close>\<close>

definition ext_valueString :: "string \<Rightarrow> Extension list \<Rightarrow> string option" where
  "ext_valueString u exts =
     (case find (\<lambda>e. url e = u) exts of None \<Rightarrow> None | Some e \<Rightarrow> valueString e)"

definition getTargetIdentifiers :: "ServiceRequest \<Rightarrow> Targets" where
  "getTargetIdentifiers sr =
     (let targetExt = (case sr_extension sr of None \<Rightarrow> None
                       | Some exts \<Rightarrow> find (\<lambda>e. url e = TARGET_EXT_URL) exts)
      in case (case targetExt of None \<Rightarrow> None | Some e \<Rightarrow> extension e) of
           None \<Rightarrow> \<lparr>tgt_orgNpi = None, tgt_orgName = None,
                     tgt_practitionerNpi = None, tgt_specialtyCode = None\<rparr>
         | Some sub \<Rightarrow>
             \<lparr>tgt_orgNpi = ext_valueString ''organizationNpi'' sub,
              tgt_orgName = ext_valueString ''organizationName'' sub,
              tgt_practitionerNpi = ext_valueString ''practitionerNpi'' sub,
              tgt_specialtyCode =
                (case find (\<lambda>e. url e = ''specialty'') sub of None \<Rightarrow> None
                 | Some e \<Rightarrow> (case valueCoding e of None \<Rightarrow> None
                              | Some c \<Rightarrow> Some (coding_code c)))\<rparr>)"

text \<open>What \<open>matchEncounterToReferrals\<close> extracts from the encounter before its loop.\<close>

record EncounterInfo =
  encOrgName :: string
  encOrgNpi :: "string option"
  encPractNpi :: "string option"
  encSpecialty :: "string option"
  encDate :: "string option"

text \<open>\<open>ref ? lookup?.(ref) : undefined\<close>\<close>

definition lookup_ref :: "(string \<Rightarrow> string option) option \<Rightarrow> string option \<Rightarrow> string option" where
  "lookup_ref f r =
     (if truthy r then (case f of None \<Rightarrow> None | Some g \<Rightarrow> g (the r)) else None)"

definition encounterInfo :: "Encounter \<Rightarrow> Reference \<Rightarrow> MatchContext \<Rightarrow> EncounterInfo" where
  "encounterInfo encounter sp context =
     (let encOrgRef = reference sp;
          first = (case enc_participant encounter of None \<Rightarrow> None
                   | Some ps \<Rightarrow> (case ps of [] \<Rightarrow> None | p # _ \<Rightarrow> individual p));
          encPractRef = map_option reference first;
          participantId = (case first of None \<Rightarrow> None | Some r \<Rightarrow> ref_identifier r);
          embeddedNpi = (case participantId of None \<Rightarrow> None
                         | Some i \<Rightarrow> if id_system i = NPI_SYSTEM then Some (id_value i) else None);
          looked = lookup_ref (practitionerNpiLookup context) encPractRef
      in \<lparr>encOrgName = (case display sp of None \<Rightarrow> [] | Some d \<Rightarrow> d),
          encOrgNpi = lookup_ref (orgNpiLookup context) (Some encOrgRef),
          encPractNpi = (if truthy looked then looked else embeddedNpi),
          encSpecialty = lookup_ref (specialtyLookup context) encPractRef,
          encDate = (case enc_period encounter of None \<Rightarrow> None | Some p \<Rightarrow> period_start p)\<rparr>)"

definition dateInWindow :: "string option \<Rightarrow> Period option \<Rightarrow> bool" where
  "dateInWindow d w =
     (case w of None \<Rightarrow> False
      | Some p \<Rightarrow> truthy d \<and>
          (\<not> truthy (period_start p) \<or> the d \<ge> the (period_start p)) \<and>
          (\<not> truthy (period_end p) \<or> the d \<le> the (period_end p)))"

definition confidenceOf :: "real \<Rightarrow> Confidence" where
  "confidenceOf s =
     (if s \<ge> HIGH_CONFIDENCE then High else if s \<ge> MEDIUM_CONFIDENCE then Medium else Low)"

text \<open>The body of the loop over the open referrals: \<open>None\<close> where the loop pushes nothing.\<close>

definition scoreReferral :: "EncounterInfo \<Rightarrow> OpenReferral \<Rightarrow> MatchResult option" where
  "scoreReferral info referral =
     (let targets = getTargetIdentifiers (serviceRequest referral) in
      if \<not> truthy (tgt_orgNpi targets) \<and> \<not> truthy (tgt_orgName targets)
           \<and> \<not> truthy (tgt_practitionerNpi targets)
      then None
      else
        let orgNpi = truthy (tgt_orgNpi targets) \<and> truthy (encOrgNpi info)
                       \<and> tgt_orgNpi targets = encOrgNpi info;
            nameSim = (if truthy (tgt_orgName targets) \<and> encOrgName info \<noteq> []
                       then fuzzyNameMatch (the (tgt_orgName targets)) (encOrgName info) else 0);
            practNpi = truthy (tgt_practitionerNpi targets) \<and> truthy (encPractNpi info)
                         \<and> tgt_practitionerNpi targets = encPractNpi info;
            spec = truthy (tgt_specialtyCode targets) \<and> truthy (encSpecialty info)
                     \<and> tgt_specialtyCode targets = encSpecialty info;
            inWindow = dateInWindow (encDate info) (sr_occurrencePeriod (serviceRequest referral));
            s = 0 + (if orgNpi then W_orgNpi else 0) + W_orgName * nameSim
                  + (if practNpi then W_practitionerNpi else 0)
                  + (if spec then W_specialty else 0)
                  + (if inWindow then W_dateInWindow else 0)
        in if s \<ge> MIN_SCORE_THRESHOLD
           then Some \<lparr>serviceRequestId = sr_id (serviceRequest referral),
                      taskId = task_id (task referral),
                      score = s,
                      confidence = confidenceOf s,
                      signals = \<lparr>sig_orgNpi = orgNpi, sig_orgName = nameSim,
                                  sig_practitionerNpi = practNpi, sig_specialty = spec,
                                  sig_dateInWindow = inWindow\<rparr>\<rparr>
           else None)"

text \<open>The results are sorted by score, best first; the sort of the source is stable, as
  \<^const>\<open>sort_key\<close> is.\<close>

definition matchEncounterToReferrals ::
  "Encounter \<Rightarrow> OpenReferral list \<Rightarrow> MatchContext \<Rightarrow> MatchResult list" where
  "matchEncounterToReferrals encounter openReferrals context =
     (case enc_serviceProvider encounter of
        None \<Rightarrow> []
      | Some sp \<Rightarrow>
          sort_key (\<lambda>r. - score r)
            (List.map_filter (scoreReferral (encounterInfo encounter sp context)) openReferrals))"

section \<open>The in-memory store (store.ts)\<close>

text \<open>
  The module-level collections are one record, passed to every function and returned
  updated. A \<open>Map\<close> that the code iterates is an association list in insertion order
  (\<open>tasks\<close>, \<open>practitionerRoles\<close>, \<open>brokerSessions\<close>); a \<open>Map\<close> that is only
  read and written by key is a partial function. Each key of \<open>tasks\<close> holds a task
  object of its own. \<open>broadcasts\<close> is the log of the messages handed to \<open>broadcast\<close>
  (shared/sse.ts), which touches nothing else of the store and never throws.
\<close>

record BrokerSession =
  brokerId :: "string option"
  sourceId :: "string option"
  accessToken :: "string option"
  subscriptionId :: "string option"
  session_patientId :: string

datatype Channel = Patient_channel | Physician_channel

record Broadcast =
  bc_channel :: Channel
  bc_type :: string
  bc_encounterId :: string
  bc_encounter :: Encounter
  bc_matchResult :: "MatchResult option"
  bc_taskId :: "string option"
  bc_patientId :: "string option"

record store =
  organizations :: "string \<rightharpoonup> Organization"
  practitioners :: "string \<rightharpoonup> Practitioner"
  practitionerRoles :: "(string \<times> PractitionerRole) list"
  serviceRequests :: "string \<rightharpoonup> ServiceRequest"
  tasks :: "(string \<times> Task) list"
  encounters :: "string \<rightharpoonup> Encounter"
  sharingPreferences :: "string \<rightharpoonup> SharingPreference"
  routedEvents :: "RoutedEvent list"
  brokerSessions :: "(string \<times> BrokerSession) list"
  broadcasts :: "Broadcast list"

definition broadcast :: "Broadcast \<Rightarrow> store \<Rightarrow> store" where
  "broadcast msg s = s\<lparr>broadcasts := broadcasts s @ [msg]\<rparr>"

definition resolvePatientId :: "store \<Rightarrow> string \<Rightarrow> string" where
  "resolvePatientId s ehrPatientId =
     (case find (\<lambda>(patientId, session). sourceId session = Some ehrPatientId) (brokerSessions s) of
        Some (patientId, session) \<Rightarrow> patientId
      | None \<Rightarrow> ehrPatientId)"

definition getOpenReferrals :: "store \<Rightarrow> string \<Rightarrow> OpenReferral list" where
  "getOpenReferrals s patientId =
     List.map_filter
       (\<lambda>(k, t).
          if map_option reference (task_for t) = Some (''Patient/'' @ patientId)
             \<and> task_status t \<noteq> T_completed \<and> task_status t \<noteq> T_cancelled
             \<and> task_status t \<noteq> T_failed
          then (case serviceRequests s
                       (case task_focus t of None \<Rightarrow> []
                        | Some r \<Rightarrow> replace_first ''ServiceRequest/'' [] (reference r)) of
                  None \<Rightarrow> None
                | Some sr \<Rightarrow> Some \<lparr>serviceRequest = sr, task = t\<rparr>)
          else None)
       (tasks s)"

definition getSharingPreference :: "store \<Rightarrow> string \<Rightarrow> string \<Rightarrow> SharingPreference option" where
  "getSharingPreference s patientId physicianRef =
     sharingPreferences s (patientId @ '':'' @ physicianRef)"

section \<open>Consent, routing and the task lifecycle (portal/routing.ts)\<close>

definition AUTO_LINK_THRESHOLD :: real where "AUTO_LINK_THRESHOLD = 70 / 100"

record ProcessEncounterResult =
  res_encounterId :: string
  res_patientId :: string
  matchResults :: "MatchResult list"
  bestMatch :: "MatchResult option"
  routed :: bool
  routedTo :: "string option"
  taskUpdated :: "string option"
  reason :: string

text \<open>\<open>ids?.find(i => i.system === NPI)?.value\<close>\<close>

definition npi_of :: "Identifier list option \<Rightarrow> string option" where
  "npi_of ids =
     (case ids of None \<Rightarrow> None
      | Some l \<Rightarrow> map_option id_value (find (\<lambda>i. id_system i = NPI_SYSTEM) l))"

definition buildMatchContext :: "store \<Rightarrow> MatchContext" where
  "buildMatchContext s =
     \<lparr>orgNpiLookup = Some (\<lambda>r.
          case organizations s (replace_first ''Organization/'' [] r) of
            None \<Rightarrow> None | Some org \<Rightarrow> npi_of (org_identifier org)),
      practitionerNpiLookup = Some (\<lambda>r.
          case practitioners s (replace_first ''Practitioner/'' [] r) of
            None \<Rightarrow> None | Some pract \<Rightarrow> npi_of (pract_identifier pract)),
      specialtyLookup = Some (\<lambda>r.
          case find (\<lambda>(k, role). reference (role_practitioner role) = r) (practitionerRoles s) of
            None \<Rightarrow> None
          | Some (k, role) \<Rightarrow>
              (case role_specialty role of None \<Rightarrow> None
               | Some [] \<Rightarrow> None
               | Some (sp # _) \<Rightarrow>
                   (case cc_coding sp of None \<Rightarrow> None
                    | Some [] \<Rightarrow> None
                    | Some (c # _) \<Rightarrow> Some (coding_code c))))\<rparr>"

definition TRACKING_STATUS_SYSTEM :: string where
  "TRACKING_STATUS_SYSTEM = ''http://example.org/fhir/CodeSystem/referral-tracking-status''"

definition businessStatusOf :: "string \<Rightarrow> string \<Rightarrow> CodeableConcept" where
  "businessStatusOf c d =
     \<lparr>cc_coding = Some [\<lparr>coding_system = Some TRACKING_STATUS_SYSTEM, coding_code = c,
                          coding_display = Some d\<rparr>],
      cc_text = None\<rparr>"

text \<open>In-place replacement of the value stored under a key that is present.\<close>

fun set_entry :: "string \<Rightarrow> 'v \<Rightarrow> (string \<times> 'v) list \<Rightarrow> (string \<times> 'v) list" where
  "set_entry k v [] = []"
| "set_entry k v ((k', v') # rest) =
     (if k' = k then (k', v) # rest else (k', v') # set_entry k v rest)"

text \<open>
  \<open>updateTaskForEncounter\<close> mutates the task object found under \<open>taskId\<close>. The first
  argument is the time that \<open>new Date().toISOString()\<close> returns; the match result is
  not read by the source either.
\<close>

definition updateTaskForEncounter ::
  "string \<Rightarrow> string \<Rightarrow> Encounter \<Rightarrow> MatchResult \<Rightarrow> store \<Rightarrow> store" where
  "updateTaskForEncounter now tid encounter matchResult s =
     (case map_of (tasks s) tid of
        None \<Rightarrow> s
      | Some t \<Rightarrow>
          if task_status t = T_completed \<or> task_status t = T_failed then s
          else
            let t1 = t\<lparr>task_lastModified := Some now\<rparr>;
                t2 =
                  (if enc_status encounter = E_planned then
                     t1\<lparr>task_status := T_in_progress,
                        task_businessStatus :=
                          Some (businessStatusOf ''appointment-scheduled'' ''Appointment Scheduled'')\<rparr>
                   else if enc_status encounter = E_in_progress
                        \<or> enc_status encounter = E_arrived
                        \<or> enc_status encounter = E_triaged then
                     t1\<lparr>task_status := T_in_progress,
                        task_businessStatus :=
                          Some (businessStatusOf ''encounter-in-progress'' ''Encounter In Progress'')\<rparr>
                   else if enc_status encounter = E_finished then
                     t1\<lparr>task_status := T_completed,
                        task_businessStatus := Some (businessStatusOf ''loop-closed'' ''Loop Closed''),
                        task_output :=
                          Some ((case task_output t1 of None \<Rightarrow> [] | Some os \<Rightarrow> os) @
                            [\<lparr>out_type = \<lparr>cc_coding = None, cc_text = Some ''Matched Encounter''\<rparr>,
                              out_valueReference =
                                Some \<lparr>reference = ''Encounter/'' @ enc_id encounter,
                                       display = Some (coding_code (enc_class encounter) @ '' encounter''),
                                       ref_identifier = None\<rparr>\<rparr>])\<rparr>
                   else t1)
            in s\<lparr>tasks := set_entry tid t2 (tasks s)\<rparr>)"

text \<open>The loop of \<open>checkOverdueTasks\<close> over the entries of \<open>tasks\<close>, with the time \<open>now\<close>
  read once before the loop.\<close>

definition dueDate :: "Task \<Rightarrow> string option" where
  "dueDate t =
     (case task_restriction t of None \<Rightarrow> None
      | Some r \<Rightarrow> (case restriction_period r of None \<Rightarrow> None | Some p \<Rightarrow> period_end p))"

fun overdue_loop :: "string \<Rightarrow> (string \<times> Task) list \<Rightarrow> (string \<times> Task) list \<times> string list" where
  "overdue_loop now [] = ([], [])"
| "overdue_loop now ((k, t) # rest) =
     (let (rest', ids) = overdue_loop now rest in
      if task_status t = T_completed \<or> task_status t = T_failed \<or> task_status t = T_cancelled
      then ((k, t) # rest', ids)
      else if truthy (dueDate t) \<and> now > the (dueDate t)
      then ((k, t\<lparr>task_status := T_failed,
                   task_businessStatus := Some (businessStatusOf ''overdue'' ''Overdue''),
                   task_lastModified := Some now\<rparr>) # rest', k # ids)
      else ((k, t) # rest', ids))"

definition checkOverdueTasks :: "string \<Rightarrow> store \<Rightarrow> string list \<times> store" where
  "checkOverdueTasks now s =
     (let (ts, ids) = overdue_loop now (tasks s) in (ids, s\<lparr>tasks := ts\<rparr>))"

text \<open>Decimal rendering of a number in a template string, and \<open>toFixed(2)\<close> of a
  non-negative number (the nearest hundredth, the larger one at a tie).\<close>

fun dec :: "nat \<Rightarrow> string" where
  "dec n = (if n < 10 then [char_of (48 + n)] else dec (n div 10) @ [char_of (48 + n mod 10)])"

declare dec.simps [simp del]

definition toFixed2 :: "real \<Rightarrow> string" where
  "toFixed2 x =
     (let n = nat \<lfloor>x * 100 + 1 / 2\<rfloor> in
      dec (n div 100) @ ''.'' @ [char_of (48 + n div 10 mod 10), char_of (48 + n mod 10)])"

text \<open>The three readings of the clock during one call of \<open>processEncounter\<close>: the time
  in \<open>updateTaskForEncounter\<close>, \<open>Date.now()\<close> for the event id, and the routing time.\<close>

record Clock =
  now_update :: string
  now_ms :: nat
  now_routed :: string

fun findIndex :: "('a \<Rightarrow> bool) \<Rightarrow> 'a list \<Rightarrow> nat option" where
  "findIndex P [] = None"
| "findIndex P (x # xs) = (if P x then Some 0 else map_option Suc (findIndex P xs))"

text \<open>The upsert of step 7: replace the first event of this encounter, or append.\<close>

definition upsertRoutedEvent :: "RoutedEvent \<Rightarrow> RoutedEvent list \<Rightarrow> RoutedEvent list" where
  "upsertRoutedEvent event evs =
     (case findIndex (\<lambda>e. ev_encounterId e = ev_encounterId event) evs of
        Some existingIdx \<Rightarrow> evs[existingIdx := event]
      | None \<Rightarrow> evs @ [event])"

text \<open>Step 6: the decision from the sharing preference and the best match.\<close>

definition decideRouting :: "SharingPreference option \<Rightarrow> MatchResult option \<Rightarrow> bool \<times> string" where
  "decideRouting pref best =
     (case pref of
        None \<Rightarrow> (False, ''No active sharing preference'')
      | Some p \<Rightarrow>
          if \<not> pref_active p then (False, ''No active sharing preference'')
          else (case pref_mode p of
                  All_encounters \<Rightarrow>
                    (True, ''Patient selected '' @ [CHR 0x27] @ ''share all encounters'' @ [CHR 0x27])
                | Referrals_only \<Rightarrow>
                    (case best of
                       Some bm \<Rightarrow>
                         (True, ''Matched referral '' @ serviceRequestId bm @ '' (score: ''
                                  @ toFixed2 (score bm) @ '')'')
                     | None \<Rightarrow> (False, ''No referral match found (referrals-only mode)''))))"

text \<open>Steps 1 and 2 up to the stored encounter: the subject is rewritten when the
  resolution changed the patient id.\<close>

definition rawPatientIdOf :: "Encounter \<Rightarrow> string" where
  "rawPatientIdOf encounter = replace_first ''Patient/'' [] (reference (enc_subject encounter))"

definition normalizeSubject :: "store \<Rightarrow> Encounter \<Rightarrow> Encounter" where
  "normalizeSubject s encounter =
     (let rawPatientId = rawPatientIdOf encounter;
          patientId = resolvePatientId s rawPatientId
      in if patientId \<noteq> rawPatientId
         then encounter\<lparr>enc_subject :=
                \<lparr>reference = ''Patient/'' @ patientId, display = None, ref_identifier = None\<rparr>\<rparr>
         else encounter)"

definition bestMatchOf :: "MatchResult list \<Rightarrow> MatchResult option" where
  "bestMatchOf results =
     (case results of [] \<Rightarrow> None
      | r # _ \<Rightarrow> if score r \<ge> AUTO_LINK_THRESHOLD then Some r else None)"

definition processEncounter :: "Clock \<Rightarrow> Encounter \<Rightarrow> store \<Rightarrow> ProcessEncounterResult \<times> store" where
  "processEncounter clk encounter0 s0 =
     (let patientId = resolvePatientId s0 (rawPatientIdOf encounter0);
          encounter = normalizeSubject s0 encounter0;
          isUpdate = (encounters s0 (enc_id encounter) \<noteq> None);
          s1 = s0\<lparr>encounters := (encounters s0)(enc_id encounter \<mapsto> encounter)\<rparr>;
          s2 = broadcast
                 \<lparr>bc_channel = Patient_channel,
                  bc_type = (if isUpdate then ''encounter-updated'' else ''encounter-stored''),
                  bc_encounterId = enc_id encounter, bc_encounter = encounter,
                  bc_matchResult = None, bc_taskId = None, bc_patientId = Some patientId\<rparr> s1;
          openReferrals = getOpenReferrals s2 patientId;
          results = matchEncounterToReferrals encounter openReferrals (buildMatchContext s2);
          best = bestMatchOf results;
          s3 = (case best of None \<Rightarrow> s2
                | Some bm \<Rightarrow> updateTaskForEncounter (now_update clk) (taskId bm) encounter bm s2);
          updated = map_option taskId best;
          physicianRef = (case openReferrals of [] \<Rightarrow> None
                          | r # _ \<Rightarrow> map_option reference (sr_requester (serviceRequest r)));
          pref = (if truthy physicianRef then getSharingPreference s3 patientId (the physicianRef)
                  else None);
          (isRouted, why) = decideRouting pref best;
          s4 = (if isRouted \<and> truthy physicianRef then
                  broadcast
                    \<lparr>bc_channel = Physician_channel,
                     bc_type = (if isUpdate then ''encounter-updated'' else ''encounter-routed''),
                     bc_encounterId = enc_id encounter, bc_encounter = encounter,
                     bc_matchResult = best, bc_taskId = updated, bc_patientId = None\<rparr>
                    (s3\<lparr>routedEvents :=
                          upsertRoutedEvent
                            \<lparr>ev_id = ''route-'' @ dec (now_ms clk),
                             ev_encounterId = enc_id encounter,
                             ev_patientId = patientId,
                             ev_physicianRef = the physicianRef,
                             ev_taskId = map_option taskId best,
                             ev_matchScore = map_option score best,
                             ev_routedAt = now_routed clk,
                             ev_encounter = encounter\<rparr>
                            (routedEvents s3)\<rparr>)
                else s3)
      in (\<lparr>res_encounterId = enc_id encounter,
           res_patientId = patientId,
           matchResults = results,
           bestMatch = best,
           routed = isRouted,
           routedTo = (if isRouted then physicianRef else None),
           taskUpdated = updated,
           reason = why\<rparr>, s4))"

text \<open>A sequence of calls, each with its clock readings and its encounter; the results
  are returned in the order of the calls.\<close>

fun processAll :: "(Clock \<times> Encounter) list \<Rightarrow> store \<Rightarrow> ProcessEncounterResult list \<times> store" where
  "processAll [] s = ([], s)"
| "processAll ((clk, e) # rest) s =
     (let (r, s') = processEncounter clk e s; (rs, s'') = processAll rest s' in (r # rs, s''))"

text \<open>
  Names for the values that \<open>processEncounter\<close> computes from the store it is called on,
  for the statements below: the open referrals of the resolved patient (\<open>openReferrals\<close>),
  the output of the scorer (\<open>matchResults\<close>), the requester of the first open referral
  (\<open>physicianRef\<close>) and the sharing preference looked up for it (\<open>pref\<close>).
\<close>

definition patientIdFor :: "store \<Rightarrow> Encounter \<Rightarrow> string" where
  "patientIdFor s e = resolvePatientId s (rawPatientIdOf e)"

definition openReferralsFor :: "store \<Rightarrow> Encounter \<Rightarrow> OpenReferral list" where
  "openReferralsFor s e = getOpenReferrals s (patientIdFor s e)"

definition scorerOutput :: "store \<Rightarrow> Encounter \<Rightarrow> MatchResult list" where
  "scorerOutput s e =
     matchEncounterToReferrals (normalizeSubject s e) (openReferralsFor s e) (buildMatchContext s)"

definition physicianRefFor :: "store \<Rightarrow> Encounter \<Rightarrow> string option" where
  "physicianRefFor s e =
     (case openReferralsFor s e of [] \<Rightarrow> None
      | r # _ \<Rightarrow> map_option reference (sr_requester (serviceRequest r)))"

definition prefFor :: "store \<Rightarrow> Encounter \<Rightarrow> SharingPreference option" where
  "prefFor s e =
     (if truthy (physicianRefFor s e)
      then getSharingPreference s (patientIdFor s e) (the (physicianRefFor s e)) else None)"

text \<open>The encounter ids that have a Routed Event in the store.\<close>

definition routedIds :: "store \<Rightarrow> string set" where
  "routedIds s = ev_encounterId ` set (routedEvents s)"

section \<open>Example data\<close>

text \<open>
  The data of the repository's tests and seed: a cardiology referral by Dr. Smith for
  patient-001 with its tracking task, the target organization and practitioner, a
  referrals-only sharing preference, a broker session that maps the upstream patient id,
  and a finished encounter at the target organization.
\<close>

definition demo_referral :: ServiceRequest where
  "demo_referral =
     \<lparr>sr_id = ''referral-001'',
      sr_subject = \<lparr>reference = ''Patient/patient-001'', display = None, ref_identifier = None\<rparr>,
      sr_requester = Some \<lparr>reference = ''Practitioner/dr-smith'', display = Some ''Dr. Robert Smith'',
                            ref_identifier = None\<rparr>,
      sr_occurrencePeriod = Some \<lparr>period_start = Some ''2026-02-01'', period_end = Some ''2026-04-01''\<rparr>,
      sr_extension = Some
        [Extension TARGET_EXT_URL None None None (Some
           [Extension ''organizationNpi'' None (Some ''1122334455'') None None,
            Extension ''organizationName'' None (Some ''Valley Cardiology'') None None,
            Extension ''practitionerNpi'' None (Some ''9876543210'') None None,
            Extension ''specialty'' None None
              (Some \<lparr>coding_system = None, coding_code = ''207RC0000X'', coding_display = None\<rparr>) None])]\<rparr>"

definition demo_task :: Task where
  "demo_task =
     \<lparr>task_id = ''task-001'', task_status = T_requested,
      task_focus = Some \<lparr>reference = ''ServiceRequest/referral-001'', display = None, ref_identifier = None\<rparr>,
      task_for = Some \<lparr>reference = ''Patient/patient-001'', display = None, ref_identifier = None\<rparr>,
      task_lastModified = Some ''2026-02-01T10:30:00Z'',
      task_restriction = Some \<lparr>restriction_period = Some \<lparr>period_start = None, period_end = Some ''2026-04-01''\<rparr>\<rparr>,
      task_businessStatus = Some (businessStatusOf ''awaiting-scheduling'' ''Awaiting Scheduling''),
      task_output = None\<rparr>"

definition demo_encounter :: Encounter where
  "demo_encounter =
     \<lparr>enc_id = ''enc-001'', enc_meta = None, enc_status = E_finished,
      enc_class = \<lparr>coding_system = None, coding_code = ''AMB'', coding_display = Some ''ambulatory''\<rparr>,
      enc_type = None,
      enc_subject = \<lparr>reference = ''Patient/mercy-a1b2c3d'', display = Some ''Alice Rodriguez'',
                     ref_identifier = None\<rparr>,
      enc_participant = Some [\<lparr>individual = Some \<lparr>reference = ''Practitioner/dr-johnson'',
                                 display = None, ref_identifier = None\<rparr>\<rparr>],
      enc_period = Some \<lparr>period_start = Some ''2026-02-15T09:00:00Z'', period_end = None\<rparr>,
      enc_reasonCode = None,
      enc_serviceProvider = Some \<lparr>reference = ''Organization/org-valley'',
                                  display = Some ''Valley Cardiology'', ref_identifier = None\<rparr>\<rparr>"

definition demo_store :: store where
  "demo_store =
     \<lparr>organizations = [''org-valley'' \<mapsto>
         \<lparr>org_id = ''org-valley'',
          org_identifier = Some [\<lparr>id_system = NPI_SYSTEM, id_value = ''1122334455''\<rparr>],
          org_name = ''Valley Cardiology''\<rparr>],
      practitioners = [''dr-johnson'' \<mapsto>
         \<lparr>pract_id = ''dr-johnson'',
          pract_identifier = Some [\<lparr>id_system = NPI_SYSTEM, id_value = ''9876543210''\<rparr>]\<rparr>],
      practitionerRoles = [(''role-cardio'',
         \<lparr>role_id = ''role-cardio'',
          role_practitioner = \<lparr>reference = ''Practitioner/dr-johnson'', display = None, ref_identifier = None\<rparr>,
          role_organization = \<lparr>reference = ''Organization/org-valley'', display = None, ref_identifier = None\<rparr>,
          role_specialty = Some [\<lparr>cc_coding = Some [\<lparr>coding_system = None, coding_code = ''207RC0000X'',
                                                     coding_display = None\<rparr>], cc_text = None\<rparr>]\<rparr>)],
      serviceRequests = [''referral-001'' \<mapsto> demo_referral],
      tasks = [(''task-001'', demo_task)],
      encounters = Map.empty,
      sharingPreferences = [''patient-001:Practitioner/dr-smith'' \<mapsto>
         \<lparr>pref_patientId = ''patient-001'', pref_physicianRef = ''Practitioner/dr-smith'',
          pref_mode = Referrals_only, pref_grantedAt = ''2026-02-01T10:00:00Z'', pref_active = True\<rparr>],
      routedEvents = [],
      brokerSessions = [(''patient-001'',
         \<lparr>brokerId = Some ''broker-1'', sourceId = Some ''mercy-a1b2c3d'', accessToken = None,
          subscriptionId = None, session_patientId = ''patient-001''\<rparr>)],
      broadcasts = []\<rparr>"

definition demo_clock :: Clock where
  "demo_clock = \<lparr>now_update = ''2026-02-15T10:00:00.000Z'', now_ms = 1771149600000,
                  now_routed = ''2026-02-15T10:00:00.001Z''\<rparr>"

definition demo_clock2 :: Clock where
  "demo_clock2 = \<lparr>now_update = ''2026-02-15T11:00:00.000Z'', now_ms = 1771153200000,
                   now_routed = ''2026-02-15T11:00:00.001Z''\<rparr>"

definition demo_match :: MatchResult where
  "demo_match =
     \<lparr>serviceRequestId = ''referral-001'', taskId = ''task-001'', score = 1, confidence = High,
      signals = \<lparr>sig_orgNpi = True, sig_orgName = 1, sig_practitionerNpi = True,
                  sig_specialty = True, sig_dateInWindow = True\<rparr>\<rparr>"

definition demo_calls :: "(Clock \<times> Encounter) list" where
  "demo_calls = [(demo_clock, demo_encounter), (demo_clock2, demo_encounter)]"

text \<open>The same store with the task already completed, with the task overdue, and with no
  task at all but an active all-encounters preference.\<close>

definition demo_store_completed :: store where
  "demo_store_completed =
     demo_store\<lparr>tasks := [(''task-001'', demo_task\<lparr>task_status := T_completed\<rparr>)]\<rparr>"

definition demo_store_overdue :: store where
  "demo_store_overdue =
     demo_store\<lparr>tasks := [(''task-001'',
        demo_task\<lparr>task_restriction :=
          Some \<lparr>restriction_period =
            Some \<lparr>period_start = None, period_end = Some ''2020-01-01''\<rparr>\<rparr>\<rparr>)]\<rparr>"

definition demo_store_no_referral :: store where
  "demo_store_no_referral =
     demo_store\<lparr>tasks := [],
       sharingPreferences := [''patient-001:Practitioner/dr-smith'' \<mapsto>
         \<lparr>pref_patientId = ''patient-001'', pref_physicianRef = ''Practitioner/dr-smith'',
          pref_mode = All_encounters, pref_grantedAt = ''2026-02-01T10:00:00Z'',
          pref_active = True\<rparr>]\<rparr>"

section \<open>Properties of the fuzzy name matcher\<close>

lemma inner_fold_inv:
  assumes lp: "length prev = Suc (length b)" and lc: "length cur = Suc (length b)"
    and pb: "\<forall>j\<le>length b. prev ! j \<le> max (i - 1) j" and i1: "1 \<le> i"
  shows "k \<le> length b \<Longrightarrow>
     length (foldl (inner_step a b i prev) (cur[0 := i]) [1..<Suc k]) = Suc (length b) \<and>
     (\<forall>j\<le>k. foldl (inner_step a b i prev) (cur[0 := i]) [1..<Suc k] ! j \<le> max i j)"
proof (induction k)
  case 0
  then show ?case using lc by simp
next
  case (Suc k)
  let ?c = "foldl (inner_step a b i prev) (cur[0 := i]) [1..<Suc k]"
  from Suc have len: "length ?c = Suc (length b)" and ih: "\<forall>j\<le>k. ?c ! j \<le> max i j"
    by simp_all
  have step: "foldl (inner_step a b i prev) (cur[0 := i]) [1..<Suc (Suc k)] = inner_step a b i prev ?c (Suc k)"
    by simp
  from pb Suc.prems have pk: "prev ! k \<le> max (i - 1) k" by simp
  have v: "(if a ! (i - 1) = b ! k then prev ! k
            else 1 + min (prev ! k) (min (prev ! Suc k) (?c ! k))) \<le> max i (Suc k)"
    using pk i1 by (auto simp: max_def min_def split: if_splits)
  show ?case
    unfolding step
  proof (intro conjI allI impI)
    show "length (inner_step a b i prev ?c (Suc k)) = Suc (length b)"
      using len by (simp add: inner_step_def)
  next
    fix j assume j: "j \<le> Suc k"
    show "inner_step a b i prev ?c (Suc k) ! j \<le> max i j"
    proof (cases "j = Suc k")
      case True
      have "Suc k < length ?c" using len Suc.prems by simp
      then have "inner_step a b i prev ?c (Suc k) ! Suc k =
          (if a ! (i - 1) = b ! k then prev ! k
           else 1 + min (prev ! k) (min (prev ! Suc k) (?c ! k)))"
        by (simp add: inner_step_def)
      with v True show ?thesis by (simp only:)
    next
      case False
      with j have "j \<le> k" by simp
      with ih have "?c ! j \<le> max i j" by blast
      moreover have "inner_step a b i prev ?c (Suc k) ! j = ?c ! j"
        using False by (simp add: inner_step_def)
      ultimately show ?thesis by (simp only:)
    qed
  qed
qed

lemma lev_row_inv:
  assumes "length prev = Suc (length b)" "length cur = Suc (length b)"
    "\<forall>j\<le>length b. prev ! j \<le> max (i - 1) j" "1 \<le> i"
  shows "length (lev_row a b prev cur i) = Suc (length b) \<and>
         (\<forall>j\<le>length b. lev_row a b prev cur i ! j \<le> max i j)"
  unfolding lev_row_def using inner_fold_inv[OF assms, of "length b" a] by simp

lemma lev_rows_inv:
  "length (fst (lev_rows a b k)) = Suc (length b) \<and>
   length (snd (lev_rows a b k)) = Suc (length b) \<and>
   (\<forall>j\<le>length b. fst (lev_rows a b k) ! j \<le> max k j)"
proof (induction k)
  case 0
  have "\<And>j. j \<le> length b \<Longrightarrow> [0..<Suc (length b)] ! j = j"
    by (metis add_0 le_imp_less_Suc nth_upt)
  then show ?case by (simp add: lev_rows_def)
next
  case (Suc k)
  obtain p c where pc: "lev_rows a b k = (p, c)" by (cases "lev_rows a b k")
  have step: "lev_rows a b (Suc k) = (lev_row a b p c (Suc k), p)"
    using pc by (simp add: lev_rows_def)
  from Suc pc have "length p = Suc (length b)" "length c = Suc (length b)"
    "\<forall>j\<le>length b. p ! j \<le> max (Suc k - 1) j" by simp_all
  from lev_row_inv[OF this, of a] show ?case
    unfolding step using \<open>length p = Suc (length b)\<close> by simp
qed

lemma levenshteinDistance_le: "levenshteinDistance a b \<le> max (length a) (length b)"
  using lev_rows_inv[of a b "length a"] by (simp add: levenshteinDistance_def Let_def)

lemma tokenJaccard_range: "0 \<le> tokenJaccard a b \<and> tokenJaccard a b \<le> 1"
proof -
  let ?A = "remdups (split_ws a)" and ?B = "remdups (split_ws b)"
  have "distinct (filter (\<lambda>x. x \<in> set ?B) ?A)" by simp
  then have "length (filter (\<lambda>x. x \<in> set ?B) ?A) = card (set (filter (\<lambda>x. x \<in> set ?B) ?A))"
    by (simp only: distinct_card)
  also have "\<dots> \<le> card (set (?A @ ?B))"
    by (rule card_mono) auto
  also have "\<dots> = length (remdups (?A @ ?B))"
    by (simp only: length_remdups_card_conv)
  finally have le: "length (filter (\<lambda>x. x \<in> set ?B) ?A) \<le> length (remdups (?A @ ?B))" .
  show ?thesis
    unfolding tokenJaccard_def Let_def using le
    by (auto simp: divide_le_eq_1 simp del: remdups_append2 remdups_remdups length_0_conv)
qed

lemma ratio_range:
  "d \<le> (M::nat) \<Longrightarrow> M \<noteq> 0 \<Longrightarrow> 0 \<le> 1 - real d / real M \<and> 1 - real d / real M \<le> 1"
  by (simp add: divide_le_eq_1)

lemma fuzzyNameMatch_range: "0 \<le> fuzzyNameMatch a b \<and> fuzzyNameMatch a b \<le> 1"
proof -
  let ?na = "normalizeName a" and ?nb = "normalizeName b"
  note l = ratio_range[OF levenshteinDistance_le[of ?na ?nb]]
  show ?thesis
    unfolding fuzzyNameMatch_def Let_def using l tokenJaccard_range[of ?na ?nb]
    by (auto simp: max_def)
qed

lemma fuzzyNameMatch_same: "fuzzyNameMatch a a = 1"
  by (simp add: fuzzyNameMatch_def)

lemma fuzzyNameMatch_lower:
  "toLowerCase a = toLowerCase b \<Longrightarrow> fuzzyNameMatch a b = 1"
  by (simp add: fuzzyNameMatch_def normalizeName_def)

text \<open>Two pairs of names that differ only in letter case: the sharp s (code unit 0xDF)
  is a lower-case letter, and its upper-case form in the source language is "SS".\<close>

lemma sharp_norm: "normalizeName [CHR 0xDF] = [CHR 0xDF]"
  by code_simp

lemma ss_norm: "normalizeName ''SS'' = ''ss''"
  by code_simp

lemma sharp_lev: "levenshteinDistance [CHR 0xDF] ''ss'' = 2"
  by code_simp

lemma sharp_tokens: "split_ws [CHR 0xDF] = [[CHR 0xDF]]" "split_ws ''ss'' = [''ss'']"
  by code_simp+

lemma sharp_jaccard: "tokenJaccard [CHR 0xDF] ''ss'' = 0"
  by (simp add: tokenJaccard_def sharp_tokens)

lemma sharp_match: "fuzzyNameMatch [CHR 0xDF] ''SS'' = 0"
  by (simp add: fuzzyNameMatch_def sharp_norm ss_norm sharp_lev sharp_jaccard)

lemma strasse_norm:
  "normalizeName [CHR ''s'', CHR ''t'', CHR ''r'', CHR ''a'', CHR 0xDF, CHR ''e''] = [CHR ''s'', CHR ''t'', CHR ''r'', CHR ''a'', CHR 0xDF, CHR ''e'']"
  "normalizeName ''STRASSE'' = ''strasse''"
  by code_simp+

lemma strasse_lev: "levenshteinDistance [CHR ''s'', CHR ''t'', CHR ''r'', CHR ''a'', CHR 0xDF, CHR ''e''] ''strasse'' = 2"
  by code_simp

lemma strasse_tokens:
  "split_ws [CHR ''s'', CHR ''t'', CHR ''r'', CHR ''a'', CHR 0xDF, CHR ''e''] = [[CHR ''s'', CHR ''t'', CHR ''r'', CHR ''a'', CHR 0xDF, CHR ''e'']]"
  "split_ws ''strasse'' = [''strasse'']"
  by code_simp+

lemma strasse_jaccard: "tokenJaccard [CHR ''s'', CHR ''t'', CHR ''r'', CHR ''a'', CHR 0xDF, CHR ''e''] ''strasse'' = 0"
  by (simp add: tokenJaccard_def strasse_tokens)

lemma strasse_match: "fuzzyNameMatch [CHR ''s'', CHR ''t'', CHR ''r'', CHR ''a'', CHR 0xDF, CHR ''e''] ''STRASSE'' = 5 / 7"
  by (simp add: fuzzyNameMatch_def strasse_norm strasse_lev strasse_jaccard)

section \<open>Properties of the scorer\<close>

lemma set_map_filter: "set (List.map_filter f xs) = {y. \<exists>x\<in>set xs. f x = Some y}"
  by (induction xs) (auto simp: List.map_filter_simps split: option.splits)

lemma scoreReferral_confidence:
  "scoreReferral info r = Some m \<Longrightarrow> confidence m = confidenceOf (score m)"
  by (auto simp: scoreReferral_def Let_def split: if_splits)

lemma match_confidence:
  "m \<in> set (matchEncounterToReferrals e refs ctx) \<Longrightarrow> confidence m = confidenceOf (score m)"
  by (auto simp: matchEncounterToReferrals_def set_map_filter scoreReferral_confidence
      split: option.splits)

lemma sort_key_hd_least:
  assumes "x \<in> set (sort_key f ys)"
  shows "f (hd (sort_key f ys)) \<le> f x"
proof (cases "sort_key f ys")
  case Nil
  with assms show ?thesis by simp
next
  case (Cons z zs)
  have "sorted (map f (sort_key f ys))" by (rule sorted_sort_key)
  with Cons have "\<forall>y\<in>set zs. f z \<le> f y" by simp
  with assms Cons show ?thesis by auto
qed

lemma match_hd_best:
  "m \<in> set (matchEncounterToReferrals e refs ctx) \<Longrightarrow>
   score m \<le> score (hd (matchEncounterToReferrals e refs ctx))"
proof (cases "enc_serviceProvider e")
  case None
  assume "m \<in> set (matchEncounterToReferrals e refs ctx)"
  with None show ?thesis by (simp add: matchEncounterToReferrals_def)
next
  case (Some sp)
  assume "m \<in> set (matchEncounterToReferrals e refs ctx)"
  with Some sort_key_hd_least[of m "\<lambda>r. - score r"] show ?thesis
    by (simp add: matchEncounterToReferrals_def)
qed

section \<open>Properties of the lifecycle\<close>

lemma overdue_loop_idem:
  "overdue_loop now ts = (ts', ids) \<Longrightarrow> overdue_loop now ts' = (ts', [])"
proof (induction ts arbitrary: ts' ids)
  case Nil
  then show ?case by simp
next
  case (Cons p ts)
  obtain k t where p: "p = (k, t)" by (cases p)
  obtain r i where r: "overdue_loop now ts = (r, i)" by (cases "overdue_loop now ts")
  from Cons.IH[OF r] have ih: "overdue_loop now r = (r, [])" .
  from Cons.prems show ?case
    unfolding p using r ih by (auto simp: Let_def split: if_splits)
qed

section \<open>Properties of the pipeline\<close>

lemma getOpenReferrals_cong:
  "tasks s = tasks s' \<Longrightarrow> serviceRequests s = serviceRequests s' \<Longrightarrow>
   getOpenReferrals s = getOpenReferrals s'"
  by (simp add: getOpenReferrals_def fun_eq_iff cong: if_cong)

lemma buildMatchContext_cong:
  "organizations s = organizations s' \<Longrightarrow> practitioners s = practitioners s' \<Longrightarrow>
   practitionerRoles s = practitionerRoles s' \<Longrightarrow> buildMatchContext s = buildMatchContext s'"
  by (simp add: buildMatchContext_def)

lemma update_frame:
  "sharingPreferences (updateTaskForEncounter now tid e m s) = sharingPreferences s"
  "routedEvents (updateTaskForEncounter now tid e m s) = routedEvents s"
  "encounters (updateTaskForEncounter now tid e m s) = encounters s"
  "serviceRequests (updateTaskForEncounter now tid e m s) = serviceRequests s"
  "brokerSessions (updateTaskForEncounter now tid e m s) = brokerSessions s"
  "organizations (updateTaskForEncounter now tid e m s) = organizations s"
  "practitioners (updateTaskForEncounter now tid e m s) = practitioners s"
  "practitionerRoles (updateTaskForEncounter now tid e m s) = practitionerRoles s"
  "broadcasts (updateTaskForEncounter now tid e m s) = broadcasts s"
  by (simp_all add: updateTaskForEncounter_def Let_def split: option.splits)

lemma update_tasks_cong:
  "tasks s = tasks s' \<Longrightarrow>
   tasks (updateTaskForEncounter now tid e m s) = tasks (updateTaskForEncounter now tid e m s')"
  by (simp add: updateTaskForEncounter_def Let_def split: option.splits)

lemma enc_id_normalizeSubject: "enc_id (normalizeSubject s e) = enc_id e"
  by (simp add: normalizeSubject_def Let_def)

text \<open>The store after the first two steps.\<close>

lemma stored_frame:
  "getOpenReferrals (broadcast m (s\<lparr>encounters := x\<rparr>)) = getOpenReferrals s"
  "buildMatchContext (broadcast m (s\<lparr>encounters := x\<rparr>)) = buildMatchContext s"
  "getSharingPreference (updateTaskForEncounter now tid e mr (broadcast m (s\<lparr>encounters := x\<rparr>)))
     = getSharingPreference s"
  "getSharingPreference (broadcast m (s\<lparr>encounters := x\<rparr>)) = getSharingPreference s"
  "routedEvents (broadcast m s) = routedEvents s"
  "tasks (broadcast m s) = tasks s"
    apply (rule getOpenReferrals_cong; simp add: broadcast_def)
   apply (rule buildMatchContext_cong; simp add: broadcast_def)
  by (simp_all add: getSharingPreference_def fun_eq_iff update_frame broadcast_def)

lemma pe_results: "matchResults (fst (processEncounter clk e s)) = scorerOutput s e"
  by (simp add: processEncounter_def Let_def split_def scorerOutput_def openReferralsFor_def
      patientIdFor_def stored_frame)

lemma pe_id: "res_encounterId (fst (processEncounter clk e s)) = enc_id e"
  by (simp add: processEncounter_def Let_def split_def enc_id_normalizeSubject)

lemma pe_decision:
  "(routed (fst (processEncounter clk e s)), reason (fst (processEncounter clk e s))) =
     decideRouting (prefFor s e) (bestMatchOf (scorerOutput s e))"
  by (simp add: processEncounter_def Let_def split_def scorerOutput_def openReferralsFor_def
      patientIdFor_def prefFor_def physicianRefFor_def stored_frame update_frame
      split: option.splits)

lemma findIndex_Some: "findIndex P xs = Some i \<Longrightarrow> i < length xs \<and> P (xs ! i)"
proof (induction xs arbitrary: i)
  case Nil
  then show ?case by simp
next
  case (Cons x xs)
  then show ?case by (cases "P x") auto
qed

lemma image_list_update:
  "i < length xs \<Longrightarrow> f (xs ! i) = f y \<Longrightarrow> f ` set (xs[i := y]) = f ` set xs"
proof (induction xs arbitrary: i)
  case Nil
  then show ?case by simp
next
  case (Cons x xs)
  then show ?case by (cases i) auto
qed

lemma upsert_ids:
  "ev_encounterId ` set (upsertRoutedEvent ev evs) = insert (ev_encounterId ev) (ev_encounterId ` set evs)"
proof (cases "findIndex (\<lambda>e. ev_encounterId e = ev_encounterId ev) evs")
  case None
  then show ?thesis by (simp add: upsertRoutedEvent_def)
next
  case (Some i)
  from findIndex_Some[OF Some] have i: "i < length evs" "ev_encounterId (evs ! i) = ev_encounterId ev"
    by simp_all
  then have "ev_encounterId ev \<in> ev_encounterId ` set evs"
    by (metis imageI nth_mem)
  with image_list_update[OF i] Some show ?thesis
    by (auto simp: upsertRoutedEvent_def)
qed

lemma decideRouting_routed_pref: "fst (decideRouting p b) \<Longrightarrow> p \<noteq> None"
  by (cases p) (auto simp: decideRouting_def)

lemma update_tasks_stored:
  "tasks (updateTaskForEncounter now tid e m (broadcast b (s\<lparr>encounters := x\<rparr>))) =
   tasks (updateTaskForEncounter now tid e m s)"
  by (rule update_tasks_cong) (simp add: broadcast_def)

lemma pe_routedIds:
  "routedIds (snd (processEncounter clk e s)) =
     (if routed (fst (processEncounter clk e s)) then insert (enc_id e) (routedIds s) else routedIds s)"
proof -
  have r: "routed (fst (processEncounter clk e s)) = fst (decideRouting (prefFor s e) (bestMatchOf (scorerOutput s e)))"
    using pe_decision[of clk e s] by (metis fst_conv)
  show ?thesis
  proof (cases "routed (fst (processEncounter clk e s))")
    case True
    with r have "prefFor s e \<noteq> None" using decideRouting_routed_pref by blast
    then have t: "truthy (physicianRefFor s e)" by (auto simp: prefFor_def split: if_splits)
    show ?thesis using True r t
      by (simp add: processEncounter_def Let_def split_def scorerOutput_def openReferralsFor_def
      patientIdFor_def prefFor_def physicianRefFor_def stored_frame update_frame routedIds_def
      upsert_ids enc_id_normalizeSubject split: option.splits)
  next
    case False
    then show ?thesis using r
      by (simp add: processEncounter_def Let_def split_def scorerOutput_def openReferralsFor_def
      patientIdFor_def prefFor_def physicianRefFor_def stored_frame update_frame routedIds_def
        split: option.splits)
  qed
qed

lemma pe_not_routed_events:
  "\<not> routed (fst (processEncounter clk e s)) \<Longrightarrow>
   routedEvents (snd (processEncounter clk e s)) = routedEvents s"
  by (simp add: processEncounter_def Let_def split_def stored_frame update_frame split: option.splits)

lemma pe_tasks:
  "tasks (snd (processEncounter clk e s)) =
     (case bestMatchOf (scorerOutput s e) of None \<Rightarrow> tasks s
      | Some bm \<Rightarrow> tasks (updateTaskForEncounter (now_update clk) (taskId bm) (normalizeSubject s e) bm s))"
  by (simp add: processEncounter_def Let_def split_def scorerOutput_def openReferralsFor_def
      patientIdFor_def stored_frame update_tasks_stored split: option.splits)

lemma processAll_routedIds:
  "processAll calls s = (rs, s') \<Longrightarrow>
   routedIds s' = routedIds s \<union> {res_encounterId r | r. r \<in> set rs \<and> routed r}"
proof (induction calls arbitrary: s rs s')
  case Nil
  then show ?case by auto
next
  case (Cons c calls)
  obtain clk e where c: "c = (clk, e)" by (cases c)
  obtain r1 s1 where p1: "processEncounter clk e s = (r1, s1)" by (cases "processEncounter clk e s")
  obtain rs2 s2 where p2: "processAll calls s1 = (rs2, s2)" by (cases "processAll calls s1")
  from Cons.prems c p1 p2 have eq: "rs = r1 # rs2" "s' = s2" by simp_all
  from pe_routedIds[of clk e s] pe_id[of clk e s] p1
  have s1: "routedIds s1 = (if routed r1 then insert (res_encounterId r1) (routedIds s) else routedIds s)"
    by simp
  from Cons.IH[OF p2] have "routedIds s2 = routedIds s1 \<union> {res_encounterId r | r. r \<in> set rs2 \<and> routed r}" .
  with s1 eq show ?case by auto
qed

lemma pe_routedTo:
  "routedTo (fst (processEncounter clk e s)) =
     (if fst (decideRouting (prefFor s e) (bestMatchOf (scorerOutput s e)))
      then physicianRefFor s e else None)"
  by (simp add: processEncounter_def Let_def split_def scorerOutput_def openReferralsFor_def
      patientIdFor_def prefFor_def physicianRefFor_def stored_frame update_frame
      split: option.splits)

lemma pe_no_open_referrals:
  assumes "openReferralsFor s e = []"
  shows "\<not> routed (fst (processEncounter clk e s))"
    and "reason (fst (processEncounter clk e s)) = ''No active sharing preference''"
    and "routedTo (fst (processEncounter clk e s)) = None"
    and "routedEvents (snd (processEncounter clk e s)) = routedEvents s"
proof -
  from assms have p: "prefFor s e = None"
    by (simp add: prefFor_def physicianRefFor_def truthy_def)
  have d: "decideRouting None (bestMatchOf (scorerOutput s e)) =
             (False, ''No active sharing preference'')"
    by (simp add: decideRouting_def)
  from pe_decision[of clk e s] p d
  have rr: "(routed (fst (processEncounter clk e s)), reason (fst (processEncounter clk e s))) =
              (False, ''No active sharing preference'')"
    by (simp only:)
  then show r: "\<not> routed (fst (processEncounter clk e s))"
    and "reason (fst (processEncounter clk e s)) = ''No active sharing preference''"
    by (simp_all only: prod.inject simp_thms)
  from r show "routedEvents (snd (processEncounter clk e s)) = routedEvents s"
    by (rule pe_not_routed_events)
  from p d show "routedTo (fst (processEncounter clk e s)) = None"
    by (simp only: pe_routedTo fst_conv if_False)
qed


lemma broadcast_encounters: "encounters (broadcast m s) = encounters s"
  by (simp add: broadcast_def)

lemma pe_encounters:
  "encounters (snd (processEncounter clk e s)) = (encounters s)(enc_id e \<mapsto> normalizeSubject s e)"
  by (simp add: processEncounter_def Let_def split_def update_frame broadcast_encounters
      enc_id_normalizeSubject split: option.splits)

lemma decideRouting_referrals_only:
  "pref_active p \<Longrightarrow> pref_mode p = Referrals_only \<Longrightarrow> fst (decideRouting (Some p) b) = (b \<noteq> None)"
  by (cases b) (simp_all add: decideRouting_def)

lemma bestMatchOf_Some_iff:
  "bestMatchOf rs \<noteq> None \<longleftrightarrow> rs \<noteq> [] \<and> score (hd rs) \<ge> 70 / 100"
  by (cases rs) (simp_all add: bestMatchOf_def AUTO_LINK_THRESHOLD_def)

lemma pe_routed:
  "routed (fst (processEncounter clk e s)) =
     fst (decideRouting (prefFor s e) (bestMatchOf (scorerOutput s e)))"
  using pe_decision[of clk e s] by (metis fst_conv)

section \<open>Evaluation of the example data\<close>

lemma demo_patientId: "patientIdFor demo_store demo_encounter = ''patient-001''"
  by (simp add: patientIdFor_def resolvePatientId_def rawPatientIdOf_def demo_store_def
      demo_encounter_def)

lemma demo_openReferrals:
  "getOpenReferrals demo_store ''patient-001'' = [\<lparr>serviceRequest = demo_referral, task = demo_task\<rparr>]"
  by (simp add: getOpenReferrals_def demo_store_def demo_task_def List.map_filter_simps)

lemma demo_targets:
  "getTargetIdentifiers demo_referral =
     \<lparr>tgt_orgNpi = Some ''1122334455'', tgt_orgName = Some ''Valley Cardiology'',
      tgt_practitionerNpi = Some ''9876543210'', tgt_specialtyCode = Some ''207RC0000X''\<rparr>"
  by (simp add: getTargetIdentifiers_def ext_valueString_def demo_referral_def TARGET_EXT_URL_def)

lemma demo_info:
  "encounterInfo demo_encounter
     \<lparr>reference = ''Organization/org-valley'', display = Some ''Valley Cardiology'',
      ref_identifier = None\<rparr> (buildMatchContext demo_store) =
   \<lparr>encOrgName = ''Valley Cardiology'', encOrgNpi = Some ''1122334455'',
    encPractNpi = Some ''9876543210'', encSpecialty = Some ''207RC0000X'',
    encDate = Some ''2026-02-15T09:00:00Z''\<rparr>"
  by (simp add: encounterInfo_def buildMatchContext_def lookup_ref_def truthy_def npi_of_def
      NPI_SYSTEM_def demo_encounter_def demo_store_def Let_def)

lemma demo_window:
  "dateInWindow (Some ''2026-02-15T09:00:00Z'') (sr_occurrencePeriod demo_referral)"
  by (simp add: dateInWindow_def truthy_def demo_referral_def)

lemma demo_score:
  "scoreReferral
     \<lparr>encOrgName = ''Valley Cardiology'', encOrgNpi = Some ''1122334455'',
      encPractNpi = Some ''9876543210'', encSpecialty = Some ''207RC0000X'',
      encDate = Some ''2026-02-15T09:00:00Z''\<rparr>
     \<lparr>serviceRequest = demo_referral, task = demo_task\<rparr> = Some demo_match"
proof -
  have ids: "sr_id demo_referral = ''referral-001''" "task_id demo_task = ''task-001''"
    by (simp_all add: demo_referral_def demo_task_def)
  show ?thesis
    by (simp add: scoreReferral_def demo_targets demo_window fuzzyNameMatch_same truthy_def ids
        confidenceOf_def demo_match_def W_orgNpi_def W_orgName_def W_practitionerNpi_def
        W_specialty_def W_dateInWindow_def MIN_SCORE_THRESHOLD_def HIGH_CONFIDENCE_def
        MEDIUM_CONFIDENCE_def)
qed

lemma demo_matches:
  "matchEncounterToReferrals demo_encounter [\<lparr>serviceRequest = demo_referral, task = demo_task\<rparr>]
     (buildMatchContext demo_store) = [demo_match]"
proof -
  have sp: "enc_serviceProvider demo_encounter =
      Some \<lparr>reference = ''Organization/org-valley'', display = Some ''Valley Cardiology'',
            ref_identifier = None\<rparr>"
    by (simp add: demo_encounter_def)
  show ?thesis
    by (simp add: matchEncounterToReferrals_def sp demo_info demo_score List.map_filter_simps)
qed


lemma encounterInfo_subject:
  "encounterInfo (e\<lparr>enc_subject := x\<rparr>) sp ctx = encounterInfo e sp ctx"
  by (simp add: encounterInfo_def)

lemma match_normalizeSubject:
  "matchEncounterToReferrals (normalizeSubject s e) refs ctx = matchEncounterToReferrals e refs ctx"
  by (cases "enc_serviceProvider e")
    (simp_all add: matchEncounterToReferrals_def normalizeSubject_def Let_def encounterInfo_subject)

lemma map_filter_all_None: "\<forall>x\<in>set xs. f x = None \<Longrightarrow> List.map_filter f xs = []"
  by (induction xs) simp_all

lemma getOpenReferrals_closed:
  "\<forall>kt\<in>set (tasks s). task_status (snd kt) = T_completed \<Longrightarrow> getOpenReferrals s pid = []"
  unfolding getOpenReferrals_def by (rule map_filter_all_None) (auto simp: split_def)

lemma demo_scorer: "scorerOutput demo_store demo_encounter = [demo_match]"
  by (simp add: scorerOutput_def openReferralsFor_def demo_patientId demo_openReferrals
      match_normalizeSubject demo_matches)

lemma demo_best: "bestMatchOf (scorerOutput demo_store demo_encounter) = Some demo_match"
  by (simp add: demo_scorer bestMatchOf_def AUTO_LINK_THRESHOLD_def demo_match_def)

lemma demo_requester:
  "sr_requester demo_referral =
     Some \<lparr>reference = ''Practitioner/dr-smith'', display = Some ''Dr. Robert Smith'',
           ref_identifier = None\<rparr>"
  by (simp add: demo_referral_def)

lemma demo_sharing:
  "getSharingPreference demo_store ''patient-001'' ''Practitioner/dr-smith'' =
     Some \<lparr>pref_patientId = ''patient-001'', pref_physicianRef = ''Practitioner/dr-smith'',
           pref_mode = Referrals_only, pref_grantedAt = ''2026-02-01T10:00:00Z'',
           pref_active = True\<rparr>"
  by (simp add: getSharingPreference_def demo_store_def)

lemma demo_pref:
  "prefFor demo_store demo_encounter =
     Some \<lparr>pref_patientId = ''patient-001'', pref_physicianRef = ''Practitioner/dr-smith'',
           pref_mode = Referrals_only, pref_grantedAt = ''2026-02-01T10:00:00Z'',
           pref_active = True\<rparr>"
  by (simp add: prefFor_def physicianRefFor_def openReferralsFor_def demo_patientId
      demo_openReferrals demo_requester truthy_def demo_sharing)

lemma demo_routed: "routed (fst (processEncounter clk demo_encounter demo_store))"
  by (simp add: pe_routed demo_pref demo_best decideRouting_referrals_only)

lemma demo_tasks_after:
  "\<forall>kt\<in>set (tasks (snd (processEncounter clk demo_encounter demo_store))).
     task_status (snd kt) = T_completed"
proof -
  have st: "enc_status (normalizeSubject demo_store demo_encounter) = E_finished"
    by (simp add: normalizeSubject_def Let_def demo_encounter_def)
  have t: "tasks demo_store = [(''task-001'', demo_task)]" by (simp add: demo_store_def)
  have ts: "task_status demo_task = T_requested" by (simp add: demo_task_def)
  have tid: "taskId demo_match = ''task-001''" by (simp add: demo_match_def)
  show ?thesis
    by (simp add: pe_tasks demo_best updateTaskForEncounter_def t ts tid st Let_def)
qed

lemma demo_second_open:
  "openReferralsFor (snd (processEncounter clk demo_encounter demo_store)) demo_encounter = []"
  unfolding openReferralsFor_def by (rule getOpenReferrals_closed) (rule demo_tasks_after)


section \<open>The claims\<close>

text \<open>
  Claim C1, as stated: after any sequence of calls of \<open>processEncounter\<close>, a Routed Event
  for an encounter id exists if and only if the most recent routing evaluation for that
  id decided to route. The code never removes a Routed Event. In the example the finished
  encounter is processed twice: the first call routes it and completes the task; at the
  second call the patient has no open referral left, so the evaluation decides not to
  route, and the Routed Event of the first call is still in the store.
\<close>

theorem routed_event_survives_unrouted_call:
  "routed (fst (processEncounter demo_clock demo_encounter demo_store)) = True \<and>
   res_encounterId (fst (processEncounter demo_clock2 demo_encounter
      (snd (processEncounter demo_clock demo_encounter demo_store)))) = ''enc-001'' \<and>
   routed (fst (processEncounter demo_clock2 demo_encounter
      (snd (processEncounter demo_clock demo_encounter demo_store)))) = False \<and>
   ''enc-001'' \<in> ev_encounterId ` set (routedEvents (snd (processEncounter demo_clock2 demo_encounter
      (snd (processEncounter demo_clock demo_encounter demo_store)))))"
proof -
  have i: "enc_id demo_encounter = ''enc-001''" by (simp add: demo_encounter_def)
  have r1: "routed (fst (processEncounter demo_clock demo_encounter demo_store))"
    by (rule demo_routed)
  have "routedIds (snd (processEncounter demo_clock demo_encounter demo_store)) =
      insert ''enc-001'' (routedIds demo_store)"
    using r1 by (simp add: pe_routedIds i)
  then have e1: "''enc-001'' \<in> ev_encounterId `
      set (routedEvents (snd (processEncounter demo_clock demo_encounter demo_store)))"
    by (simp add: routedIds_def)
  note second = pe_no_open_referrals[OF demo_second_open[of demo_clock], of demo_clock2]
  from r1 e1 second(1) second(4) show ?thesis
    by (simp add: pe_id i)
qed

text \<open>
  Claim C1, amended: Routed Events are only added or replaced, never removed. After any
  sequence of calls of \<open>processEncounter\<close>, a Routed Event for an encounter id exists if
  and only if one existed before the sequence or some routing evaluation of the sequence
  for that id decided to route; in particular it exists when the most recent evaluation
  for the id decided to route.
\<close>

theorem routed_event_iff_some_call_routed:
  "processAll calls s = (rs, s') \<Longrightarrow>
   (\<exists>ev\<in>set (routedEvents s'). ev_encounterId ev = eid) \<longleftrightarrow>
   (\<exists>ev\<in>set (routedEvents s). ev_encounterId ev = eid) \<or>
   (\<exists>r\<in>set rs. res_encounterId r = eid \<and> routed r)"
proof -
  assume "processAll calls s = (rs, s')"
  from processAll_routedIds[OF this]
  have "eid \<in> routedIds s' \<longleftrightarrow> eid \<in> routedIds s \<or> eid \<in> {res_encounterId r | r. r \<in> set rs \<and> routed r}"
    by simp
  then show ?thesis by (auto simp: routedIds_def)
qed

theorem routed_event_iff_some_call_routed_witness:
  "processAll demo_calls demo_store =
     (fst (processAll demo_calls demo_store), snd (processAll demo_calls demo_store)) \<and>
   routedEvents demo_store = [] \<and>
   routed (hd (fst (processAll demo_calls demo_store))) \<and>
   (\<exists>ev\<in>set (routedEvents (snd (processAll demo_calls demo_store))). ev_encounterId ev = ''enc-001'')"
proof -
  have p: "processAll demo_calls demo_store =
     (fst (processAll demo_calls demo_store), snd (processAll demo_calls demo_store))"
    by simp
  have e: "routedEvents demo_store = []" by (simp add: demo_store_def)
  have i: "enc_id demo_encounter = ''enc-001''" by (simp add: demo_encounter_def)
  have f: "fst (processAll demo_calls demo_store) =
      [fst (processEncounter demo_clock demo_encounter demo_store),
       fst (processEncounter demo_clock2 demo_encounter
          (snd (processEncounter demo_clock demo_encounter demo_store)))]"
    by (simp add: demo_calls_def split_def Let_def)
  have r: "routed (hd (fst (processAll demo_calls demo_store)))"
    by (simp add: f demo_routed)
  have "\<exists>r\<in>set (fst (processAll demo_calls demo_store)). res_encounterId r = ''enc-001'' \<and> routed r"
    by (simp add: f demo_routed pe_id i)
  with routed_event_iff_some_call_routed[OF p, of "''enc-001''"] p e r show ?thesis by blast
qed

text \<open>
  Claim C2. A tracking record whose status is completed or failed is left as it is by
  \<open>updateTaskForEncounter\<close>, whatever the encounter: status, business status, output
  list and last-modified time are unchanged; indeed the whole store is.
\<close>

theorem terminal_task_unchanged:
  "map_of (tasks s) tid = Some t \<Longrightarrow> task_status t = T_completed \<or> task_status t = T_failed \<Longrightarrow>
   updateTaskForEncounter now tid e m s = s \<and>
   map_of (tasks (updateTaskForEncounter now tid e m s)) tid = Some t"
  by (auto simp: updateTaskForEncounter_def)

theorem terminal_task_unchanged_witness:
  "map_of (tasks demo_store_completed) ''task-001'' = Some (demo_task\<lparr>task_status := T_completed\<rparr>) \<and>
   task_status (demo_task\<lparr>task_status := T_completed\<rparr>) = T_completed \<and>
   updateTaskForEncounter ''2026-02-15T10:00:00.000Z'' ''task-001'' demo_encounter demo_match
     demo_store_completed = demo_store_completed"
proof -
  have h: "map_of (tasks demo_store_completed) ''task-001'' = Some (demo_task\<lparr>task_status := T_completed\<rparr>)"
    by (simp add: demo_store_completed_def)
  have st: "task_status (demo_task\<lparr>task_status := T_completed\<rparr>) = T_completed
            \<or> task_status (demo_task\<lparr>task_status := T_completed\<rparr>) = T_failed"
    by simp
  from terminal_task_unchanged[OF h st] h show ?thesis by simp
qed

text \<open>
  Claim C3. Let the resolved patient of the encounter have an open referral, let the first
  open referral name its requester by the non-empty reference \<open>P\<close>, and let the sharing
  preference stored for the patient and \<open>P\<close> be active with mode referrals-only. Then
  \<open>processEncounter\<close> routes if and only if the scorer returns a result and the first,
  top-scoring one has a score of at least 0.70: results below 0.70 count as no match.
  The results are those of the scorer on the stored encounter and the open referrals,
  and no result scores higher than the first.
\<close>

theorem referrals_only_routes_iff_threshold:
  assumes "getOpenReferrals s (resolvePatientId s (rawPatientIdOf e)) = r0 # rest"
    and "sr_requester (serviceRequest r0) = Some req" and "reference req = P" and "P \<noteq> []"
    and "getSharingPreference s (resolvePatientId s (rawPatientIdOf e)) P = Some pref"
    and "pref_active pref" and "pref_mode pref = Referrals_only"
  shows "(routed (fst (processEncounter clk e s)) \<longleftrightarrow>
            matchResults (fst (processEncounter clk e s)) \<noteq> [] \<and>
            score (hd (matchResults (fst (processEncounter clk e s)))) \<ge> 70 / 100) \<and>
         matchResults (fst (processEncounter clk e s)) =
            matchEncounterToReferrals (normalizeSubject s e) (r0 # rest) (buildMatchContext s) \<and>
         (\<forall>x\<in>set (matchResults (fst (processEncounter clk e s))).
            score x \<le> score (hd (matchResults (fst (processEncounter clk e s)))))"
proof -
  have ph: "physicianRefFor s e = Some P"
    using assms(1-3) by (simp add: physicianRefFor_def openReferralsFor_def patientIdFor_def)
  have pf: "prefFor s e = Some pref"
    using ph assms(4,5) by (simp add: prefFor_def truthy_def patientIdFor_def)
  have so: "scorerOutput s e =
      matchEncounterToReferrals (normalizeSubject s e) (r0 # rest) (buildMatchContext s)"
    using assms(1) by (simp add: scorerOutput_def openReferralsFor_def patientIdFor_def)
  have r: "routed (fst (processEncounter clk e s)) \<longleftrightarrow> bestMatchOf (scorerOutput s e) \<noteq> None"
    by (simp only: pe_routed pf decideRouting_referrals_only[OF assms(6,7)])
  have best: "\<forall>x\<in>set (scorerOutput s e). score x \<le> score (hd (scorerOutput s e))"
    unfolding so using match_hd_best by blast
  from r so best show ?thesis
    by (simp only: pe_results bestMatchOf_Some_iff)
qed

theorem referrals_only_routes_iff_threshold_witness:
  "getOpenReferrals demo_store (resolvePatientId demo_store (rawPatientIdOf demo_encounter)) =
     [\<lparr>serviceRequest = demo_referral, task = demo_task\<rparr>] \<and>
   map_option reference (sr_requester demo_referral) = Some ''Practitioner/dr-smith'' \<and>
   map_option pref_mode (getSharingPreference demo_store
       (resolvePatientId demo_store (rawPatientIdOf demo_encounter)) ''Practitioner/dr-smith'')
     = Some Referrals_only \<and>
   (routed (fst (processEncounter demo_clock demo_encounter demo_store)) \<longleftrightarrow>
      matchResults (fst (processEncounter demo_clock demo_encounter demo_store)) \<noteq> [] \<and>
      score (hd (matchResults (fst (processEncounter demo_clock demo_encounter demo_store))))
        \<ge> 70 / 100) \<and>
   routed (fst (processEncounter demo_clock demo_encounter demo_store))"
proof -
  have pid: "resolvePatientId demo_store (rawPatientIdOf demo_encounter) = ''patient-001''"
    using demo_patientId by (simp add: patientIdFor_def)
  have o: "getOpenReferrals demo_store (resolvePatientId demo_store (rawPatientIdOf demo_encounter)) =
     \<lparr>serviceRequest = demo_referral, task = demo_task\<rparr> # []"
    by (simp only: pid demo_openReferrals)
  have q: "sr_requester (serviceRequest \<lparr>serviceRequest = demo_referral, task = demo_task\<rparr>) =
      Some \<lparr>reference = ''Practitioner/dr-smith'', display = Some ''Dr. Robert Smith'',
            ref_identifier = None\<rparr>"
    by (simp add: demo_requester)
  have P: "reference \<lparr>reference = ''Practitioner/dr-smith'', display = Some ''Dr. Robert Smith'',
            ref_identifier = None\<rparr> = ''Practitioner/dr-smith''"
    and ne: "''Practitioner/dr-smith'' \<noteq> []"
    by simp_all
  have g: "getSharingPreference demo_store (resolvePatientId demo_store (rawPatientIdOf demo_encounter))
      ''Practitioner/dr-smith'' =
     Some \<lparr>pref_patientId = ''patient-001'', pref_physicianRef = ''Practitioner/dr-smith'',
           pref_mode = Referrals_only, pref_grantedAt = ''2026-02-01T10:00:00Z'',
           pref_active = True\<rparr>"
    by (simp only: pid demo_sharing)
  have a: "pref_active \<lparr>pref_patientId = ''patient-001'', pref_physicianRef = ''Practitioner/dr-smith'',
           pref_mode = Referrals_only, pref_grantedAt = ''2026-02-01T10:00:00Z'',
           pref_active = True\<rparr>"
    and m: "pref_mode \<lparr>pref_patientId = ''patient-001'', pref_physicianRef = ''Practitioner/dr-smith'',
           pref_mode = Referrals_only, pref_grantedAt = ''2026-02-01T10:00:00Z'',
           pref_active = True\<rparr> = Referrals_only"
    by simp_all
  note t = referrals_only_routes_iff_threshold[OF o q P ne g a m, of demo_clock]
  have rq: "map_option reference (sr_requester demo_referral) = Some ''Practitioner/dr-smith''"
    by (simp add: demo_requester)
  have gm: "map_option pref_mode (getSharingPreference demo_store
       (resolvePatientId demo_store (rawPatientIdOf demo_encounter)) ''Practitioner/dr-smith'')
     = Some Referrals_only"
    by (simp add: g)
  from t o rq gm demo_routed[of demo_clock] show ?thesis by blast
qed

text \<open>
  Claim C4, as stated: for a record in a non-terminal state and an encounter whose status
  is outside the handled set, \<open>updateTaskForEncounter\<close> leaves the record unchanged,
  the last-modified time included. The code writes the time before it looks at the status
  of the encounter: for the requested task of the example and a cancelled encounter the
  last-modified time changes.
\<close>

theorem unhandled_status_touches_lastModified:
  "task_status (the (map_of (tasks demo_store) ''task-001'')) = T_requested \<and>
   task_lastModified (the (map_of (tasks demo_store) ''task-001'')) = Some ''2026-02-01T10:30:00Z'' \<and>
   task_lastModified (the (map_of (tasks
      (updateTaskForEncounter ''2026-02-15T10:00:00.000Z'' ''task-001''
         (demo_encounter\<lparr>enc_status := E_cancelled\<rparr>) demo_match demo_store)) ''task-001''))
     = Some ''2026-02-15T10:00:00.000Z'' \<and>
   task_lastModified (the (map_of (tasks
      (updateTaskForEncounter ''2026-02-15T10:00:00.000Z'' ''task-001''
         (demo_encounter\<lparr>enc_status := E_cancelled\<rparr>) demo_match demo_store)) ''task-001''))
     \<noteq> task_lastModified (the (map_of (tasks demo_store) ''task-001''))"
  by (simp add: updateTaskForEncounter_def demo_store_def demo_task_def Let_def)

text \<open>
  Claim C4, amended: for a record whose status is neither completed nor failed and an
  encounter whose status is cancelled or onleave, \<open>updateTaskForEncounter\<close> sets the
  last-modified time of the record to the current time and changes nothing else, in the
  record or in the store.
\<close>

theorem unhandled_status_only_lastModified:
  "map_of (tasks s) tid = Some t \<Longrightarrow> task_status t \<noteq> T_completed \<Longrightarrow> task_status t \<noteq> T_failed \<Longrightarrow>
   enc_status e = E_cancelled \<or> enc_status e = E_onleave \<Longrightarrow>
   updateTaskForEncounter now tid e m s =
     s\<lparr>tasks := set_entry tid (t\<lparr>task_lastModified := Some now\<rparr>) (tasks s)\<rparr>"
  by (auto simp: updateTaskForEncounter_def Let_def)

theorem unhandled_status_only_lastModified_witness:
  "map_of (tasks demo_store) ''task-001'' = Some demo_task \<and>
   task_status demo_task \<noteq> T_completed \<and> task_status demo_task \<noteq> T_failed \<and>
   enc_status (demo_encounter\<lparr>enc_status := E_cancelled\<rparr>) = E_cancelled \<and>
   updateTaskForEncounter ''2026-02-15T10:00:00.000Z'' ''task-001''
       (demo_encounter\<lparr>enc_status := E_cancelled\<rparr>) demo_match demo_store =
     demo_store\<lparr>tasks := set_entry ''task-001''
       (demo_task\<lparr>task_lastModified := Some ''2026-02-15T10:00:00.000Z''\<rparr>) (tasks demo_store)\<rparr>"
proof -
  have h: "map_of (tasks demo_store) ''task-001'' = Some demo_task"
    by (simp add: demo_store_def)
  have s1: "task_status demo_task \<noteq> T_completed" and s2: "task_status demo_task \<noteq> T_failed"
    by (simp_all add: demo_task_def)
  have e: "enc_status (demo_encounter\<lparr>enc_status := E_cancelled\<rparr>) = E_cancelled
           \<or> enc_status (demo_encounter\<lparr>enc_status := E_cancelled\<rparr>) = E_onleave"
    by simp
  from unhandled_status_only_lastModified[OF h s1 s2 e] h s1 s2 show ?thesis by simp
qed

text \<open>
  Claim C5. \<open>checkOverdueTasks\<close> is idempotent: a second call at the same time, on the
  store that the first call left, changes no record and returns the empty list, so no id
  that the first call returned is returned again.
\<close>

theorem checkOverdueTasks_idempotent:
  "checkOverdueTasks now s = (ids, s') \<Longrightarrow>
   checkOverdueTasks now s' = ([], s') \<and> (\<forall>k\<in>set ids. k \<notin> set (fst (checkOverdueTasks now s')))"
  by (auto simp: checkOverdueTasks_def Let_def split: prod.splits dest: overdue_loop_idem)

theorem checkOverdueTasks_idempotent_witness:
  "fst (checkOverdueTasks ''2026-02-15T10:00:00.000Z'' demo_store_overdue) = [''task-001''] \<and>
   checkOverdueTasks ''2026-02-15T10:00:00.000Z''
       (snd (checkOverdueTasks ''2026-02-15T10:00:00.000Z'' demo_store_overdue)) =
     ([], snd (checkOverdueTasks ''2026-02-15T10:00:00.000Z'' demo_store_overdue))"
proof -
  have f: "fst (checkOverdueTasks ''2026-02-15T10:00:00.000Z'' demo_store_overdue) = [''task-001'']"
    by (simp add: checkOverdueTasks_def demo_store_overdue_def demo_task_def dueDate_def truthy_def)
  have p: "checkOverdueTasks ''2026-02-15T10:00:00.000Z'' demo_store_overdue =
      (fst (checkOverdueTasks ''2026-02-15T10:00:00.000Z'' demo_store_overdue),
       snd (checkOverdueTasks ''2026-02-15T10:00:00.000Z'' demo_store_overdue))"
    by simp
  from checkOverdueTasks_idempotent[OF p] f show ?thesis by blast
qed

text \<open>
  Claim C6. For every match result that the scorer returns, the confidence is given by
  the score: high from 0.70, medium from 0.40 to below 0.70, low below 0.40.
\<close>

theorem confidence_by_score:
  "\<forall>m \<in> set (matchEncounterToReferrals e refs ctx).
     (score m \<ge> 70 / 100 \<longrightarrow> confidence m = High) \<and>
     (40 / 100 \<le> score m \<and> score m < 70 / 100 \<longrightarrow> confidence m = Medium) \<and>
     (score m < 40 / 100 \<longrightarrow> confidence m = Low)"
  by (auto simp: match_confidence confidenceOf_def HIGH_CONFIDENCE_def MEDIUM_CONFIDENCE_def)

theorem confidence_by_score_witness:
  "demo_match \<in> set (matchEncounterToReferrals demo_encounter
       [\<lparr>serviceRequest = demo_referral, task = demo_task\<rparr>] (buildMatchContext demo_store)) \<and>
   score demo_match \<ge> 70 / 100 \<and> confidence demo_match = High"
proof -
  have m: "demo_match \<in> set (matchEncounterToReferrals demo_encounter
       [\<lparr>serviceRequest = demo_referral, task = demo_task\<rparr>] (buildMatchContext demo_store))"
    by (simp add: demo_matches)
  have s: "score demo_match \<ge> 70 / 100" by (simp add: demo_match_def)
  from confidence_by_score[of demo_encounter "[\<lparr>serviceRequest = demo_referral, task = demo_task\<rparr>]"
      "buildMatchContext demo_store"] m s
  show ?thesis by blast
qed

text \<open>
  Claim C7, as stated: \<open>fuzzyNameMatch\<close> returns a value between 0 and 1, a name matches
  itself with exactly 1, and two names that differ only in letter case match with exactly
  1. The source compares the lower-case forms, and a case change is not always undone by
  \<open>toLowerCase\<close>: the upper-case form of the sharp s is "SS", whose lower-case form
  is "ss". The sharp s against "SS" scores 0, and the street name with a sharp s against
  its upper-case form "STRASSE" scores below 1.
\<close>

theorem case_change_scores_below_one:
  "fuzzyNameMatch [CHR 0xDF] ''SS'' = 0 \<and>
   fuzzyNameMatch [CHR ''s'', CHR ''t'', CHR ''r'', CHR ''a'', CHR 0xDF, CHR ''e''] ''STRASSE'' < 1"
  by (simp add: sharp_match strasse_match)

text \<open>
  Claim C7, amended: \<open>fuzzyNameMatch\<close> returns a value between 0 and 1; a name matches
  itself with exactly 1; and two names whose lower-case forms (\<open>toLowerCase\<close>) are
  equal match with exactly 1.
\<close>

theorem fuzzyNameMatch_bounds_identity_case:
  "0 \<le> fuzzyNameMatch a b \<and> fuzzyNameMatch a b \<le> 1 \<and> fuzzyNameMatch a a = 1 \<and>
   (toLowerCase a = toLowerCase b \<longrightarrow> fuzzyNameMatch a b = 1)"
  using fuzzyNameMatch_range[of a b] fuzzyNameMatch_same[of a] fuzzyNameMatch_lower[of a b]
  by blast

theorem fuzzyNameMatch_bounds_identity_case_witness:
  "toLowerCase ''ABC'' = toLowerCase ''abc'' \<and> fuzzyNameMatch ''ABC'' ''abc'' = 1 \<and>
   fuzzyNameMatch ''ABC'' ''ABC'' = 1"
proof -
  have h: "toLowerCase ''ABC'' = toLowerCase ''abc''"
    by code_simp
  from fuzzyNameMatch_bounds_identity_case[of "''ABC''" "''abc''"] h show ?thesis by blast
qed

text \<open>
  Claim C8. For an encounter without a servicing organization the scorer returns the
  empty list, whatever the open referrals and the lookup context: the function returns
  before it reads anything else, and no lookup is called.
\<close>

theorem no_serviceProvider_no_matches:
  "enc_serviceProvider e = None \<Longrightarrow> matchEncounterToReferrals e refs ctx = []"
  by (simp add: matchEncounterToReferrals_def)

theorem no_serviceProvider_no_matches_witness:
  "enc_serviceProvider (demo_encounter\<lparr>enc_serviceProvider := None\<rparr>) = None \<and>
   matchEncounterToReferrals (demo_encounter\<lparr>enc_serviceProvider := None\<rparr>)
     [\<lparr>serviceRequest = demo_referral, task = demo_task\<rparr>] (buildMatchContext demo_store) = []"
proof -
  have h: "enc_serviceProvider (demo_encounter\<lparr>enc_serviceProvider := None\<rparr>) = None" by simp
  from no_serviceProvider_no_matches[OF h] h show ?thesis by blast
qed

text \<open>
  Claim C9. When the resolved patient of the encounter has no open referral,
  \<open>processEncounter\<close> does not route, gives the reason "No active sharing preference"
  and leaves the routed events as they are, whatever sharing preferences the store holds:
  the referring provider is taken from the first open referral only.
\<close>

theorem no_open_referrals_not_routed:
  "getOpenReferrals s (resolvePatientId s (rawPatientIdOf e)) = [] \<Longrightarrow>
   \<not> routed (fst (processEncounter clk e s)) \<and>
   reason (fst (processEncounter clk e s)) = ''No active sharing preference'' \<and>
   routedTo (fst (processEncounter clk e s)) = None \<and>
   routedEvents (snd (processEncounter clk e s)) = routedEvents s"
  using pe_no_open_referrals[of s e clk] by (simp add: openReferralsFor_def patientIdFor_def)

theorem no_open_referrals_not_routed_witness:
  "getOpenReferrals demo_store_no_referral
      (resolvePatientId demo_store_no_referral (rawPatientIdOf demo_encounter)) = [] \<and>
   map_option pref_mode (getSharingPreference demo_store_no_referral ''patient-001''
      ''Practitioner/dr-smith'') = Some All_encounters \<and>
   \<not> routed (fst (processEncounter demo_clock demo_encounter demo_store_no_referral)) \<and>
   reason (fst (processEncounter demo_clock demo_encounter demo_store_no_referral)) =
     ''No active sharing preference'' \<and>
   routedEvents (snd (processEncounter demo_clock demo_encounter demo_store_no_referral)) = []"
proof -
  have h: "getOpenReferrals demo_store_no_referral
      (resolvePatientId demo_store_no_referral (rawPatientIdOf demo_encounter)) = []"
    by (simp add: getOpenReferrals_def demo_store_no_referral_def)
  have p: "map_option pref_mode (getSharingPreference demo_store_no_referral ''patient-001''
      ''Practitioner/dr-smith'') = Some All_encounters"
    by (simp add: getSharingPreference_def demo_store_no_referral_def)
  have r: "routedEvents demo_store_no_referral = []"
    by (simp add: demo_store_no_referral_def demo_store_def)
  from no_open_referrals_not_routed[OF h, of demo_clock] h p r show ?thesis by simp
qed

text \<open>
  Claim C10. When the resolution of the patient id changes the id, the encounter that
  \<open>processEncounter\<close> stores under the encounter id is the input encounter with its
  subject replaced by the reference "Patient/" followed by the canonical id and nothing
  else: a display text and an identifier of the input subject are dropped, every other
  field is the input's.
\<close>

theorem stored_encounter_subject_rewritten:
  "resolvePatientId s (rawPatientIdOf e) \<noteq> rawPatientIdOf e \<Longrightarrow>
   encounters (snd (processEncounter clk e s)) (enc_id e) =
     Some (e\<lparr>enc_subject := \<lparr>reference = ''Patient/'' @ resolvePatientId s (rawPatientIdOf e),
                               display = None, ref_identifier = None\<rparr>\<rparr>)"
  by (simp add: pe_encounters normalizeSubject_def Let_def)

theorem stored_encounter_subject_rewritten_witness:
  "resolvePatientId demo_store (rawPatientIdOf demo_encounter) = ''patient-001'' \<and>
   rawPatientIdOf demo_encounter = ''mercy-a1b2c3d'' \<and>
   display (enc_subject demo_encounter) = Some ''Alice Rodriguez'' \<and>
   encounters (snd (processEncounter demo_clock demo_encounter demo_store)) ''enc-001'' =
     Some (demo_encounter\<lparr>enc_subject :=
       \<lparr>reference = ''Patient/patient-001'', display = None, ref_identifier = None\<rparr>\<rparr>)"
proof -
  have r: "resolvePatientId demo_store (rawPatientIdOf demo_encounter) = ''patient-001''"
    using demo_patientId by (simp add: patientIdFor_def)
  have raw: "rawPatientIdOf demo_encounter = ''mercy-a1b2c3d''"
    by (simp add: rawPatientIdOf_def demo_encounter_def)
  have d: "display (enc_subject demo_encounter) = Some ''Alice Rodriguez''"
    and i: "enc_id demo_encounter = ''enc-001''"
    by (simp_all add: demo_encounter_def)
  have h: "resolvePatientId demo_store (rawPatientIdOf demo_encounter) \<noteq> rawPatientIdOf demo_encounter"
    by (subst r, subst raw) simp
  from stored_encounter_subject_rewritten[OF h, of demo_clock] r raw d i show ?thesis by simp
qed

end
